theory Spec2Isabelle
  imports Main
begin

section \<open>Python string primitives used by \<open>testplan_generator.py\<close>\<close>

text \<open>
  Strings are lists of 8-bit characters; a character stands for the code point of the
  same number, so the model covers the Latin-1 range of Python's \<open>str\<close>.
\<close>

text \<open>\<open>s.startswith(p)\<close>.\<close>

fun startswith :: "string \<Rightarrow> string \<Rightarrow> bool" where
  "startswith [] s = True"
| "startswith (p # ps) [] = False"
| "startswith (p # ps) (c # cs) = (p = c \<and> startswith ps cs)"

text \<open>\<open>sub in s\<close>: the substring test.\<close>

fun py_in :: "string \<Rightarrow> string \<Rightarrow> bool" where
  "py_in sub [] = (sub = [])"
| "py_in sub (c # cs) = (startswith sub (c # cs) \<or> py_in sub cs)"

text \<open>\<open>s.find(sub)\<close>: the index of the first occurrence, or \<open>-1\<close>.\<close>

fun find_from :: "string \<Rightarrow> string \<Rightarrow> nat \<Rightarrow> int" where
  "find_from sub [] i = (if sub = [] then int i else - 1)"
| "find_from sub (c # cs) i =
     (if startswith sub (c # cs) then int i else find_from sub cs (Suc i))"

definition py_find :: "string \<Rightarrow> string \<Rightarrow> int" where
  "py_find s sub = find_from sub s 0"

text \<open>
  \<open>s[i:j]\<close> with Python's treatment of indices: a negative index counts from the
  end, every index is clamped to the string, and the slice is empty when the bounds cross.
\<close>

definition clamp_index :: "nat \<Rightarrow> int \<Rightarrow> nat" where
  "clamp_index n i =
     (let k = (if i < 0 then i + int n else i)
      in if k < 0 then 0 else if int n < k then n else nat k)"

definition py_slice :: "string \<Rightarrow> int \<Rightarrow> int \<Rightarrow> string" where
  "py_slice s i j =
     (let lo = clamp_index (length s) i; hi = clamp_index (length s) j
      in take (hi - lo) (drop lo s))"

text \<open>
  \<open>str.isspace\<close> on one character, below code point 256: tab, line feed, vertical
  tab, form feed, carriage return, the four separators \<open>0x1C\<close> to \<open>0x1F\<close>,
  space, \<open>0x85\<close> and the no-break space.
\<close>

definition is_space :: "char \<Rightarrow> bool" where
  "is_space c \<longleftrightarrow>
     c \<in> set [CHR 0x09, CHR 0x0A, CHR 0x0B, CHR 0x0C, CHR 0x0D, CHR 0x1C, CHR 0x1D,
                CHR 0x1E, CHR 0x1F, CHR 0x20, CHR 0x85, CHR 0xA0]"

text \<open>\<open>s.strip()\<close>.\<close>

definition strip :: "string \<Rightarrow> string" where
  "strip s = rev (dropWhile is_space (rev (dropWhile is_space s)))"

text \<open>
  \<open>s.split(sep)\<close> for a non-empty separator: the pieces between the occurrences of
  \<open>sep\<close>, found from the left without overlap. Every call of the source passes a
  non-empty literal, so the \<open>ValueError\<close> of an empty separator cannot arise.
\<close>

fun py_split :: "string \<Rightarrow> string \<Rightarrow> string list" where
  "py_split sep [] = [[]]"
| "py_split sep (c # cs) =
     (if startswith sep (c # cs) then [] # py_split sep (drop (length sep - 1) cs)
      else (let ws = py_split sep cs in (c # hd ws) # tl ws))"

text \<open>The pattern class \<open>\d\<close>: below code point 256 the decimal digits are \<open>0\<close> to \<open>9\<close>.\<close>

definition is_digit :: "char \<Rightarrow> bool" where
  "is_digit c \<longleftrightarrow> c \<in> set ''0123456789''"

text \<open>
  \<open>re.search(r"Test Case (\d+)", line)\<close>: the leftmost position where the literal is
  followed by a digit; the group is the longest run of digits there. The result is the
  text of group 1, or \<open>None\<close> when there is no match.
\<close>

fun re_search_test_case :: "string \<Rightarrow> string option" where
  "re_search_test_case [] = None"
| "re_search_test_case (c # cs) =
     (let rest = drop 10 (c # cs)
      in if startswith ''Test Case '' (c # cs) \<and> takeWhile is_digit rest \<noteq> []
         then Some (takeWhile is_digit rest)
         else re_search_test_case cs)"

text \<open>\<open>re.match(r"\d+\.", s)\<close> as a truth value: digits, then a dot, at the start.\<close>

definition re_match_numbered :: "string \<Rightarrow> bool" where
  "re_match_numbered s \<longleftrightarrow>
     takeWhile is_digit s \<noteq> [] \<and> startswith ''.'' (dropWhile is_digit s)"

text \<open>
  \<open>int(s)\<close> on a string of decimal digits. The interpreter's configurable limit on
  the length of a digit string (\<open>sys.set_int_max_str_digits\<close>) is not part of the model.
\<close>

definition digit_value :: "char \<Rightarrow> int" where
  "digit_value c = int (of_char c) - 48"

definition py_int :: "string \<Rightarrow> int" where
  "py_int s = foldl (\<lambda>acc c. 10 * acc + digit_value c) 0 s"

section \<open>Data model\<close>

text \<open>
  A chat message is a dictionary; the code reads it with \<open>msg.get("content", "")\<close>.
  Its values are strings here, as the text of a turn is.
\<close>

type_synonym message = "string \<rightharpoonup> string"

definition get_content :: "message \<Rightarrow> string" where
  "get_content msg = (case msg ''content'' of None \<Rightarrow> [] | Some c \<Rightarrow> c)"

text \<open>The dictionary of one test case, with the keys of the source.\<close>

record test_case =
  test_case_number :: int
  title :: string
  objective :: string
  preconditions :: string
  steps :: "string list"
  expected_results :: string
  priority :: string
  status :: string

text \<open>
  The dictionary built by the fallback parser. Its key \<open>objective\<close> is the field
  \<open>plan_objective\<close> here, to keep it apart from the key of the same name in a test case.
\<close>

record test_plan =
  plan_objective :: string
  scope :: string
  testing_strategy :: string
  test_environment :: string
  schedule :: string
  test_cases :: "test_case list"
  risk_assessment :: string

text \<open>
  What \<open>generate_test_plan\<close> returns: the dictionary \<open>{"test_plan": text}\<close> of the
  extractor, or the dictionary of the fallback parser.
\<close>

datatype plan_result = RawPlan string | StructuredPlan test_plan

section \<open>The transcript extractor\<close>

definition start_marker :: string where
  "start_marker = ''TEST PLAN:''"

definition end_marker :: string where
  "end_marker = ''END OF TEST PLAN''"

definition no_plan_text :: string where
  "no_plan_text = ''No test plan could be extracted.''"

text \<open>The loop of \<open>_extract_test_plan_content\<close>, over the messages already reversed.\<close>

fun extract_loop :: "message list \<Rightarrow> plan_result" where
  "extract_loop [] = RawPlan no_plan_text"
| "extract_loop (msg # rest) =
     (let content = get_content msg
      in if py_in start_marker content
         then (let start_idx = py_find content start_marker;
                   end_idx = py_find content end_marker
               in if start_idx \<noteq> - 1 \<and> end_idx \<noteq> - 1
                  then RawPlan (strip (py_slice content start_idx end_idx))
                  else extract_loop rest)
         else extract_loop rest)"

definition extract_test_plan_content :: "message list \<Rightarrow> plan_result" where
  "extract_test_plan_content messages = extract_loop (rev messages)"


section \<open>The fallback structural parser\<close>

definition placeholder :: string where
  "placeholder = ''To be determined''"

text \<open>
  The state of the loops of \<open>_emergency_test_plan_processing\<close>: the list under the key
  \<open>test_cases\<close> and the variable \<open>current_test_case\<close>. A test-case dictionary is never
  empty, so \<open>if current_test_case:\<close> asks whether the variable is not \<open>None\<close>.
\<close>

type_synonym parser_state = "test_case list \<times> test_case option"

text \<open>The dictionary built for a heading line, from the line and the text of group 1.\<close>

definition new_test_case :: "string \<Rightarrow> string \<Rightarrow> test_case" where
  "new_test_case line digits =
     \<lparr> test_case_number = py_int digits,
       title = (if py_in '':'' line then strip (last (py_split '':'' line))
                else ''Test Case '' @ digits),
       objective = [],
       preconditions = [],
       steps = [],
       expected_results = [],
       priority = ''Medium'',
       status = ''Draft'' \<rparr>"

text \<open>The first \<open>if\<close> of the loop body: a heading line closes the open case and opens a new one.\<close>

definition open_test_case :: "string \<Rightarrow> string \<Rightarrow> parser_state \<Rightarrow> parser_state" where
  "open_test_case content line st =
     (case re_search_test_case line of
        Some digits \<Rightarrow>
          if py_in ''Objective:'' content
          then ((case snd st of Some cur \<Rightarrow> fst st @ [cur] | None \<Rightarrow> fst st),
                Some (new_test_case line digits))
          else st
      | None \<Rightarrow> st)"

text \<open>The \<open>if\<close>/\<open>elif\<close> chain that fills the fields of the current test case.\<close>

definition extract_fields :: "string \<Rightarrow> test_case \<Rightarrow> test_case" where
  "extract_fields line cur =
     (if startswith ''Objective:'' (strip line)
      then cur\<lparr>objective := strip (last (py_split ''Objective:'' line))\<rparr>
      else if startswith ''Preconditions:'' (strip line)
      then cur\<lparr>preconditions := strip (last (py_split ''Preconditions:'' line))\<rparr>
      else if startswith ''Expected Results:'' (strip line)
      then cur\<lparr>expected_results := strip (last (py_split ''Expected Results:'' line))\<rparr>
      else if startswith ''Priority:'' (strip line)
      then cur\<lparr>priority := strip (last (py_split ''Priority:'' line))\<rparr>
      else if startswith ''Status:'' (strip line)
      then cur\<lparr>status := strip (last (py_split ''Status:'' line))\<rparr>
      else if startswith ''-'' (strip line) \<or> re_match_numbered (strip line)
      then cur\<lparr>steps := steps cur @ [strip line]\<rparr>
      else cur)"

text \<open>One pass of the inner loop, for one line of a message with text \<open>content\<close>.\<close>

definition parse_line :: "string \<Rightarrow> parser_state \<Rightarrow> string \<Rightarrow> parser_state" where
  "parse_line content st line =
     (let st' = open_test_case content line st
      in (fst st', map_option (extract_fields line) (snd st')))"

text \<open>One pass of the outer loop, for one message.\<close>

definition parse_message :: "parser_state \<Rightarrow> message \<Rightarrow> parser_state" where
  "parse_message st msg =
     (let content = get_content msg
      in foldl (parse_line content) st (py_split ''\<newline>'' content))"

text \<open>The cases of the returned plan: the open case, if any, is appended last.\<close>

definition close_cases :: "parser_state \<Rightarrow> test_case list" where
  "close_cases st = (case snd st of Some cur \<Rightarrow> fst st @ [cur] | None \<Rightarrow> fst st)"

definition emergency_test_plan_processing :: "message list \<Rightarrow> test_plan" where
  "emergency_test_plan_processing messages =
     \<lparr> plan_objective = placeholder,
       scope = placeholder,
       testing_strategy = placeholder,
       test_environment = placeholder,
       schedule = placeholder,
       test_cases = close_cases (foldl parse_message ([], None) messages),
       risk_assessment = placeholder \<rparr>"

section \<open>The plan writer\<close>













section \<open>The pipeline\<close>



section \<open>Notions of the specification\<close>

text \<open>A message that carries one text.\<close>

definition turn :: "string \<Rightarrow> message" where
  "turn text = [''content'' \<mapsto> text]"



text \<open>
  The numbers of the heading lines of one text that the fallback parser accepts, in the
  order of the lines: a line counts when the pattern matches it and the whole text
  contains \<open>Objective:\<close>.
\<close>

definition heading_numbers :: "string \<Rightarrow> int list" where
  "heading_numbers content =
     (if py_in ''Objective:'' content
      then map py_int (List.map_filter re_search_test_case (py_split ''\<newline>'' content))
      else [])"


section \<open>The fallback parser on the example of the specification\<close>

text \<open>
  Claim C5. For the transcript whose single turn is the eight lines of the example
  (heading \<open>Test Case 3: Login works\<close>, objective, preconditions, two step lines, expected
  results, priority \<open>High\<close>, status \<open>Draft\<close>), the fallback parser returns exactly one test
  case: number 3, title \<open>Login works\<close>, the two steps in the given order, and the other
  fields as quoted.
\<close>

theorem fallback_login_example:
  "test_cases (emergency_test_plan_processing
     [turn ''Test Case 3: Login works\<newline>Objective: verify login\<newline>Preconditions: user exists\<newline>- step one\<newline>- step two\<newline>Expected Results: dashboard shown\<newline>Priority: High\<newline>Status: Draft''])
   = [\<lparr> test_case_number = 3, title = ''Login works'', objective = ''verify login'',
        preconditions = ''user exists'', steps = [''- step one'', ''- step two''],
        expected_results = ''dashboard shown'', priority = ''High'', status = ''Draft'' \<rparr>]"
  by code_simp

section \<open>Plan-level metadata\<close>

text \<open>
  Claim C10. For every transcript, the six plan-level metadata fields of the record
  returned by the fallback parser (objective, scope, testing strategy, test environment,
  schedule, risk assessment) are the placeholder \<open>To be determined\<close>: the parser takes
  only test cases from the transcript.
\<close>

theorem fallback_metadata_placeholders:
  "plan_objective (emergency_test_plan_processing messages) = ''To be determined'' \<and>
   scope (emergency_test_plan_processing messages) = ''To be determined'' \<and>
   testing_strategy (emergency_test_plan_processing messages) = ''To be determined'' \<and>
   test_environment (emergency_test_plan_processing messages) = ''To be determined'' \<and>
   schedule (emergency_test_plan_processing messages) = ''To be determined'' \<and>
   risk_assessment (emergency_test_plan_processing messages) = ''To be determined''"
  by (simp add: emergency_test_plan_processing_def placeholder_def)

section \<open>Facts about the string primitives\<close>








section \<open>The transcript extractor: selected turn and soft miss\<close>











text \<open>
  Claim C2, at an input where it fails. The single turn has the end marker at index 13
  and the start marker at index 40, so the end marker precedes the start marker; the
  extractor finds both, takes the empty slice between the crossed indices and returns a
  raw plan with empty text instead of the soft-miss text.
\<close>

theorem extractor_reversed_markers:
  "py_find ''Closing with END OF TEST PLAN as asked.\<newline>TEST PLAN:\<newline>Test Case 1: Login'' end_marker = 13 \<and>
   py_find ''Closing with END OF TEST PLAN as asked.\<newline>TEST PLAN:\<newline>Test Case 1: Login'' start_marker = 40 \<and>
   extract_test_plan_content
     [turn ''Closing with END OF TEST PLAN as asked.\<newline>TEST PLAN:\<newline>Test Case 1: Login'']
   = RawPlan [] \<and>
   RawPlan [] \<noteq> RawPlan no_plan_text"
  by code_simp

section \<open>The pipeline on a soft miss\<close>




section \<open>The fallback parser: titles\<close>

text \<open>
  Claim C6, at an input where it fails. The heading line
  \<open>Test Case 1: Login: valid password\<close> has two colons. The first colon after the
  match is followed by \<open>Login: valid password\<close>, but \<open>line.split(":")[-1]\<close> keeps
  only the text after the last colon, so the title is \<open>valid password\<close>.
\<close>

theorem fallback_title_last_colon:
  "map title (test_cases (emergency_test_plan_processing
     [turn ''Test Case 1: Login: valid password\<newline>Objective: verify login'']))
   = [''valid password''] \<and>
   [''valid password''] \<noteq> [''Login: valid password'']"
  by code_simp

section \<open>The fallback parser: identifiers\<close>

lemma close_cases_simps:
  "close_cases (cases, None) = cases"
  "close_cases (cases, Some cur) = cases @ [cur]"
  by (simp_all add: close_cases_def)

lemma extract_fields_number: "test_case_number (extract_fields line cur) = test_case_number cur"
  by (simp add: extract_fields_def)

lemma parse_line_numbers:
  "map test_case_number (close_cases (parse_line content st line))
   = map test_case_number (close_cases st)
     @ (if py_in ''Objective:'' content
        then (case re_search_test_case line of Some digits \<Rightarrow> [py_int digits] | None \<Rightarrow> [])
        else [])"
  by (cases st; cases "snd st")
     (auto simp: parse_line_def open_test_case_def close_cases_def new_test_case_def
        extract_fields_number Let_def split: option.splits)

lemma parse_lines_numbers:
  "map test_case_number (close_cases (foldl (parse_line content) st lines))
   = map test_case_number (close_cases st)
     @ (if py_in ''Objective:'' content
        then map py_int (List.map_filter re_search_test_case lines)
        else [])"
proof (induction lines arbitrary: st)
  case Nil
  show ?case by (simp add: List.map_filter_simps)
next
  case (Cons line lines)
  show ?case
    by (simp add: Cons.IH parse_line_numbers List.map_filter_simps split: option.splits)
qed

lemma parse_message_numbers:
  "map test_case_number (close_cases (parse_message st msg))
   = map test_case_number (close_cases st) @ heading_numbers (get_content msg)"
  by (simp add: parse_message_def Let_def parse_lines_numbers heading_numbers_def)

lemma parse_messages_numbers:
  "map test_case_number (close_cases (foldl parse_message st messages))
   = map test_case_number (close_cases st)
     @ concat (map (\<lambda>msg. heading_numbers (get_content msg)) messages)"
  by (induction messages arbitrary: st) (simp_all add: parse_message_numbers)

text \<open>
  Claim C7 as stated fails: identifiers are read from the heading lines, so a
  transcript that numbers an earlier case 5 and a later case 2 gives the sequence 5, 2.
\<close>

theorem fallback_numbers_counterexample:
  "map test_case_number (test_cases (emergency_test_plan_processing
     [turn ''Test Case 5: Checkout\<newline>Objective: pay\<newline>Test Case 2: Login\<newline>Objective: sign in'']))
   = [5, 2] \<and> \<not> sorted [5, 2 :: int]"
  by code_simp

text \<open>
  Claim C7, amended. For every transcript, the sequence of identifiers in the record of
  the fallback parser is the sequence of the numbers of the accepted heading lines, in
  the order of the turns and, within a turn, of the lines. The cases keep the order of
  their first appearance; the numbers are whatever the transcript says.
\<close>

theorem fallback_numbers_in_heading_order:
  "map test_case_number (test_cases (emergency_test_plan_processing messages))
   = concat (map (\<lambda>msg. heading_numbers (get_content msg)) messages)"
  by (simp add: emergency_test_plan_processing_def parse_messages_numbers close_cases_simps)

section \<open>The fallback parser: priority and status\<close>













section \<open>The plan writer followed by the fallback parser\<close>
























end
